theory Spec2Isabelle
  imports Main "HOL-Library.AList"
begin

section \<open>Values of the program\<close>

text \<open>
  The repository is a Python service: \<^verbatim>\<open>gerenciar_token.py\<close> holds the class
  \<^verbatim>\<open>GerenciadorToken\<close> (token cache and ERP gateway), \<^verbatim>\<open>main.py\<close> and
  \<^verbatim>\<open>api_fastapi.py\<close> hold the HTTP front.

  A value that comes out of \<^verbatim>\<open>json.loads\<close> is a \<open>json\<close>; Python's \<^verbatim>\<open>None\<close> is
  \<open>JNull\<close>, so that \<^verbatim>\<open>Optional[Dict]\<close> is a \<open>json\<close> too. An object keeps one pair per key.
\<close>

datatype json =
    JNull
  | JBool bool
  | JNum int
  | JStr string
  | JArr "json list"
  | JObj "(string \<times> json) list"

text \<open>
  The exceptions the modelled code can meet. \<open>HTTPException\<close> carries the status code, the
  detail and the headers, as FastAPI's does.
\<close>

datatype exn =
    TypeError
  | KeyError
  | ValueError
  | OverflowError
  | JSONDecodeError
  | RequestException
  | HTTPException int string "(string \<times> string) list"

text \<open>
  A naive \<^verbatim>\<open>datetime\<close> is the number of microseconds since \<^verbatim>\<open>datetime.min\<close>
  (0001-01-01T00:00:00), a \<^verbatim>\<open>timedelta\<close> a signed number of microseconds. The difference of
  two datetimes is always a timedelta; a sum that leaves the range of \<^verbatim>\<open>datetime\<close> raises
  \<^verbatim>\<open>OverflowError\<close>. The source only ever adds a negative timedelta to a datetime, so of the
  two limits only the lower one is written out.
\<close>

type_synonym datetime = nat
type_synonym timedelta = int

definition minutes :: "int \<Rightarrow> timedelta" where
  "minutes n = n * 60000000"

definition hours :: "int \<Rightarrow> timedelta" where
  "hours n = n * 3600000000"

definition dt_sub :: "datetime \<Rightarrow> datetime \<Rightarrow> timedelta" where
  "dt_sub a b = int a - int b"

definition dt_add :: "datetime \<Rightarrow> timedelta \<Rightarrow> exn + datetime" where
  "dt_add a d = (if int a + d < 0 then Inl OverflowError else Inr (nat (int a + d)))"

text \<open>
  The library functions the class calls on strings are parameters of the model:
  \<^verbatim>\<open>json.loads\<close> (\<open>None\<close> when it raises), \<^verbatim>\<open>datetime.strptime\<close> with the fixed format
  \<^verbatim>\<open>%Y-%m-%dT%H:%M:%SZ\<close> (\<open>None\<close> when it raises \<^verbatim>\<open>ValueError\<close>), and \<^verbatim>\<open>str\<close> of a value
  that is not a string. Every theorem holds for whatever they compute.
\<close>

record lib =
  json_loads :: "string \<Rightarrow> json option"
  strptime :: "string \<Rightarrow> datetime option"
  str_of :: "json \<Rightarrow> string"

text \<open>\<^verbatim>\<open>obj[key]\<close> with a string key: only a dict can be subscripted by it.\<close>

fun subscript :: "json \<Rightarrow> string \<Rightarrow> exn + json" where
  "subscript (JObj kv) k = (case map_of kv k of None \<Rightarrow> Inl KeyError | Some v \<Rightarrow> Inr v)"
| "subscript _ k = Inl TypeError"

text \<open>\<^verbatim>\<open>datetime.strptime(x, '%Y-%m-%dT%H:%M:%SZ')\<close>: the first argument must be a string.\<close>

fun strptime_py :: "lib \<Rightarrow> json \<Rightarrow> exn + datetime" where
  "strptime_py L (JStr x) = (case strptime L x of None \<Rightarrow> Inl ValueError | Some t \<Rightarrow> Inr t)"
| "strptime_py L _ = Inl TypeError"

text \<open>\<^verbatim>\<open>json.loads(c)\<close> on the value of a cookie: \<^verbatim>\<open>None\<close> is not a string.\<close>

fun json_loads_py :: "lib \<Rightarrow> string option \<Rightarrow> exn + json" where
  "json_loads_py L None = Inl TypeError"
| "json_loads_py L (Some c) =
     (case json_loads L c of None \<Rightarrow> Inl JSONDecodeError | Some td \<Rightarrow> Inr td)"

text \<open>The value of \<^verbatim>\<open>f"{x}"\<close>.\<close>

fun format_py :: "lib \<Rightarrow> json \<Rightarrow> string" where
  "format_py L (JStr x) = x"
| "format_py L v = str_of L v"

text \<open>
  \<^verbatim>\<open>s.replace(old, new)\<close>: every occurrence of \<open>old\<close>, from the left, without overlap; an
  empty \<open>old\<close> matches before every character and at the end.
\<close>

function str_replace :: "string \<Rightarrow> string \<Rightarrow> string \<Rightarrow> string" where
  "str_replace [] old new = (if old = [] then new else [])"
| "str_replace (c # cs) old new =
     (if old = [] then new @ c # str_replace cs old new
      else if take (length old) (c # cs) = old
           then new @ str_replace (drop (length old) (c # cs)) old new
           else c # str_replace cs old new)"
  by pat_completeness auto
termination
  by (relation "measure (\<lambda>(s, old, new). length s)") auto

section \<open>The world outside the class\<close>

text \<open>
  The session's jar is the \<^verbatim>\<open>RequestsCookieJar\<close> of the requests library: a dict from domains
  to dicts from paths to dicts from names to cookies, each dict in insertion order. The value
  of a cookie is a string, or \<^verbatim>\<open>None\<close> for a cookie that was set without a value. Iterating
  the jar yields the cookies domain by domain, path by path.
\<close>

type_synonym cookie_key = "string \<times> string \<times> string"
type_synonym jar = "(string \<times> (string \<times> (string \<times> string option) list) list) list"

definition jar_cookies :: "jar \<Rightarrow> (cookie_key \<times> string option) list" where
  "jar_cookies j =
     concat (map (\<lambda>(d, ps). concat (map (\<lambda>(p, ns). map (\<lambda>(n, v). ((d, p, n), v)) ns) ps)) j)"

text \<open>
  \<^verbatim>\<open>RequestsCookieJar.set_cookie\<close> with a string value: a value that starts and ends with a
  double quote loses every backslash followed by a double quote; then the cookie is stored
  under its domain, path and name.
\<close>

definition unescape_quoted :: "string \<Rightarrow> string" where
  "unescape_quoted x =
     (if x \<noteq> [] \<and> hd x = CHR 0x22 \<and> last x = CHR 0x22
      then str_replace x [CHR 0x5C, CHR 0x22] [] else x)"

definition set_cookie :: "string \<Rightarrow> string \<Rightarrow> string \<Rightarrow> string \<Rightarrow> jar \<Rightarrow> jar" where
  "set_cookie d p n x j =
     (let ps = (case map_of j d of None \<Rightarrow> [] | Some ps \<Rightarrow> ps);
          ns = (case map_of ps p of None \<Rightarrow> [] | Some ns \<Rightarrow> ns)
      in AList.update d (AList.update p (AList.update n (Some (unescape_quoted x)) ns) ps) j)"

text \<open>
  \<^verbatim>\<open>remove_cookie_by_name\<close> with no domain and no path: the cookies of that name go, under
  every domain and path; the dicts they were in stay.
\<close>

definition remove_cookie_by_name :: "string \<Rightarrow> jar \<Rightarrow> jar" where
  "remove_cookie_by_name n j = map (\<lambda>(d, ps). (d, map (\<lambda>(p, ns). (p, AList.delete n ns)) ps)) j"

text \<open>
  \<^verbatim>\<open>jar.set(name, value)\<close>: \<^verbatim>\<open>None\<close> removes the cookies of that name; a string is stored as a
  cookie of the empty domain and the path \<^verbatim>\<open>/\<close>.
\<close>

definition jar_set :: "string \<Rightarrow> string option \<Rightarrow> jar \<Rightarrow> jar" where
  "jar_set n v j =
     (case v of None \<Rightarrow> remove_cookie_by_name n j | Some x \<Rightarrow> set_cookie '''' ''/'' n x j)"

text \<open>\<^verbatim>\<open>{cookie.name: cookie.value for cookie in jar}\<close>: a later cookie of a name wins.\<close>

definition cookies_dict :: "jar \<Rightarrow> (string \<times> string option) list" where
  "cookies_dict j = fold (\<lambda>((d, p, n), v) acc. AList.update n v acc) (jar_cookies j) []"

text \<open>
  A request that leaves the process: the login form (URL, \<^verbatim>\<open>DataHoraLocal\<close> as the clock
  reading it is formatted from, \<^verbatim>\<open>Nome\<close>, \<^verbatim>\<open>Senha\<close>, \<^verbatim>\<open>NroEmpresa\<close>) or a POST with a body and
  headers. What comes back is a transport failure (the call raises) or a response: its
  status code, the session's jar as it is once the response is absorbed, its text, and
  what \<^verbatim>\<open>response.json()\<close> gives (\<open>None\<close> when it raises).
\<close>

datatype request =
    LoginPost string datetime int int int
  | DataPost string string "(string \<times> string) list"

datatype http_result =
    FalhaTransporte
  | Resposta int jar string "json option"

text \<open>
  A cookie file holds a JSON object whose values are strings or \<^verbatim>\<open>null\<close>, as \<^verbatim>\<open>_fazer_login\<close>
  writes it, or something \<^verbatim>\<open>json.load\<close> raises on.
\<close>

datatype file_content =
    Ilegivel
  | Cookies "(string \<times> string option) list"

text \<open>One constructor for each \<^verbatim>\<open>print\<close> of the class, with the values it formats.\<close>

datatype msg =
    MErroConsultaSQL int
  | MLoginOk datetime
  | MTokenNaoEncontrado
  | MFalhaLogin int
  | MResponse string
  | MErroLogin exn
  | MTokenCarregado datetime
  | MTokenSalvoVencido
  | MErroCarregar exn
  | MTokenAindaValido "datetime option"
  | MTokenRenovadoPorOutra "datetime option"
  | MTokenCarregadoValido "datetime option"
  | MRenovando

text \<open>
  The world: the clock (\<open>clock w k\<close> is what the \<open>k\<close>-th call of \<^verbatim>\<open>datetime.now()\<close> returns),
  the files, the network (\<open>net w k\<close> answers the \<open>k\<close>-th request), the requests sent so far and
  the lines printed so far. Writing a file always succeeds.
\<close>

record world =
  clock :: "nat \<Rightarrow> datetime"
  ticks :: nat
  files :: "string \<rightharpoonup> file_content"
  net :: "nat \<Rightarrow> http_result"
  sent :: "request list"
  out :: "msg list"

definition now :: "world \<Rightarrow> datetime \<times> world" where
  "now w = (clock w (ticks w), w\<lparr>ticks := Suc (ticks w)\<rparr>)"

definition print :: "msg \<Rightarrow> world \<Rightarrow> world" where
  "print m w = w\<lparr>out := out w @ [m]\<rparr>"

definition post :: "request \<Rightarrow> world \<Rightarrow> http_result \<times> world" where
  "post r w = (net w (length (sent w)), w\<lparr>sent := sent w @ [r]\<rparr>)"

section \<open>GerenciadorToken\<close>

text \<open>
  The fields of an instance that the modelled methods read or write. The lock is not a
  field: the methods are modelled as they run in one thread.
\<close>

record gerenciador =
  url_login :: string
  api_sql_url :: string
  nome :: int
  senha :: int
  nro_empresa :: int
  arquivo_cookies :: string
  session :: jar
  token_data :: json
  validade_token :: "datetime option"

text \<open>
  What \<^verbatim>\<open>__init__\<close> leaves behind. The URLs and the file name it derives from the login URL
  with regular expressions are taken as they come out.
\<close>

definition init :: "string \<Rightarrow> string \<Rightarrow> string \<Rightarrow> int \<Rightarrow> int \<Rightarrow> int \<Rightarrow> gerenciador" where
  "init u a f n s e =
     \<lparr>url_login = u, api_sql_url = a, nome = n, senha = s, nro_empresa = e,
      arquivo_cookies = f, session = [], token_data = JNull, validade_token = None\<rparr>"

definition margem_seguranca :: timedelta where
  "margem_seguranca = minutes 10"

definition token_precisa_renovar :: "world \<Rightarrow> gerenciador \<Rightarrow> bool \<times> world" where
  "token_precisa_renovar w s =
     (case validade_token s of
        None \<Rightarrow> (True, w)
      | Some v \<Rightarrow>
          if token_data s = JNull then (True, w)
          else (let (agora, w1) = now w in (dt_sub v agora \<le> margem_seguranca, w1)))"

definition token_e_valido :: "world \<Rightarrow> gerenciador \<Rightarrow> bool \<times> world" where
  "token_e_valido w s =
     (case validade_token s of
        None \<Rightarrow> (False, w)
      | Some v \<Rightarrow>
          if token_data s = JNull then (False, w)
          else (let (agora, w1) = now w in (dt_sub v agora > margem_seguranca, w1)))"

text \<open>
  \<^verbatim>\<open>_fazer_login\<close>: the body of the \<^verbatim>\<open>try\<close> with the exception it ends in, if any, and the
  world and the instance as they are at that point; then the \<^verbatim>\<open>except\<close> clause.
\<close>

definition fazer_login_try :: "lib \<Rightarrow> world \<Rightarrow> gerenciador \<Rightarrow> (exn + bool) \<times> world \<times> gerenciador" where
  "fazer_login_try L w s =
     (let (horario, w1) = now w;
          (r, w2) = post (LoginPost (url_login s) horario (nome s) (senha s) (nro_empresa s)) w1
      in case r of
           FalhaTransporte \<Rightarrow> (Inl RequestException, w2, s)
         | Resposta status j text body \<Rightarrow>
             let s1 = s\<lparr>session := j\<rparr> in
             if status = 200 then
               let d = cookies_dict (session s1);
                   w3 = w2\<lparr>files := (files w2)(arquivo_cookies s1 \<mapsto> Cookies d)\<rparr>
               in case map_of d ''oAuthToken'' of
                    None \<Rightarrow> (Inr False, print MTokenNaoEncontrado w3, s1)
                  | Some c \<Rightarrow>
                      (case json_loads_py L c of
                         Inl e \<Rightarrow> (Inl e, w3, s1)
                       | Inr td \<Rightarrow>
                           let s2 = s1\<lparr>token_data := td\<rparr> in
                           (case subscript td ''.expires'' of
                              Inl e \<Rightarrow> (Inl e, w3, s2)
                            | Inr x \<Rightarrow>
                                (case strptime_py L x of
                                   Inl e \<Rightarrow> (Inl e, w3, s2)
                                 | Inr t \<Rightarrow>
                                     (Inr True, print (MLoginOk t) w3,
                                      s2\<lparr>validade_token := Some t\<rparr>))))
             else (Inr False, print (MResponse text) (print (MFalhaLogin status) w2), s1))"

definition fazer_login :: "lib \<Rightarrow> world \<Rightarrow> gerenciador \<Rightarrow> bool \<times> world \<times> gerenciador" where
  "fazer_login L w s =
     (case fazer_login_try L w s of
        (Inl e, w', s') \<Rightarrow> (False, print (MErroLogin e) w', s')
      | (Inr b, w', s') \<Rightarrow> (b, w', s'))"

text \<open>\<^verbatim>\<open>carregar_token_salvo\<close>, in the same two layers.\<close>

definition carregar_token_salvo_try ::
  "lib \<Rightarrow> world \<Rightarrow> gerenciador \<Rightarrow> (exn + bool) \<times> world \<times> gerenciador" where
  "carregar_token_salvo_try L w s =
     (case files w (arquivo_cookies s) of
        None \<Rightarrow> (Inr False, w, s)
      | Some Ilegivel \<Rightarrow> (Inl JSONDecodeError, w, s)
      | Some (Cookies d) \<Rightarrow>
          (case map_of d ''oAuthToken'' of
             None \<Rightarrow> (Inr False, w, s)
           | Some c \<Rightarrow>
               (case json_loads_py L c of
                  Inl e \<Rightarrow> (Inl e, w, s)
                | Inr td \<Rightarrow>
                    let s1 = s\<lparr>token_data := td\<rparr> in
                    (case subscript td ''.expires'' of
                       Inl e \<Rightarrow> (Inl e, w, s1)
                     | Inr x \<Rightarrow>
                         (case strptime_py L x of
                            Inl e \<Rightarrow> (Inl e, w, s1)
                          | Inr t \<Rightarrow>
                              let s2 = s1\<lparr>validade_token := Some t\<rparr> in
                              (case dt_add t (hours (- 3)) of
                                 Inl e \<Rightarrow> (Inl e, w, s2)
                               | Inr t' \<Rightarrow>
                                   let s3 = s2\<lparr>validade_token := Some t'\<rparr>;
                                       s4 = s3\<lparr>session :=
                                              fold (\<lambda>(n, v) j. jar_set n v j) d (session s3)\<rparr>;
                                       (p, w1) = token_precisa_renovar w s4
                                   in if \<not> p then (Inr True, print (MTokenCarregado t') w1, s4)
                                      else (Inr False, print MTokenSalvoVencido w1, s4)))))))"

definition carregar_token_salvo :: "lib \<Rightarrow> world \<Rightarrow> gerenciador \<Rightarrow> bool \<times> world \<times> gerenciador" where
  "carregar_token_salvo L w s =
     (case carregar_token_salvo_try L w s of
        (Inl e, w', s') \<Rightarrow> (False, print (MErroCarregar e) w', s')
      | (Inr b, w', s') \<Rightarrow> (b, w', s'))"

text \<open>
  \<^verbatim>\<open>pegar_token_atualizado\<close>: the token, or \<open>JNull\<close> for \<^verbatim>\<open>None\<close>. The second validity check is
  the one made under the lock.
\<close>

definition pegar_token_atualizado :: "lib \<Rightarrow> world \<Rightarrow> gerenciador \<Rightarrow> json \<times> world \<times> gerenciador" where
  "pegar_token_atualizado L w s =
     (let (v1, w1) = token_e_valido w s in
      if v1 then (token_data s, print (MTokenAindaValido (validade_token s)) w1, s)
      else
        let (v2, w2) = token_e_valido w1 s in
        if v2 then (token_data s, print (MTokenRenovadoPorOutra (validade_token s)) w2, s)
        else
          let (w3, s3) = (if token_data s = JNull
                          then (let (b, w', s') = carregar_token_salvo L w2 s in (w', s'))
                          else (w2, s));
              (v3, w4) = token_e_valido w3 s3
          in
          if v3 then (token_data s3, print (MTokenCarregadoValido (validade_token s3)) w4, s3)
          else
            let (p, w5) = token_precisa_renovar w4 s3 in
            if p then
              (let (ok, w6, s6) = fazer_login L (print MRenovando w5) s3 in
               if \<not> ok then (JNull, w6, s6) else (token_data s6, w6, s6))
            else (token_data s3, w5, s3))"

definition obter_session_autenticada ::
  "lib \<Rightarrow> world \<Rightarrow> gerenciador \<Rightarrow> jar option \<times> world \<times> gerenciador" where
  "obter_session_autenticada L w s =
     (let (t, w1, s1) = pegar_token_atualizado L w s in
      if t \<noteq> JNull then (Some (session s1), w1, s1) else (None, w1, s1))"

text \<open>\<open>n\<close> calls of \<^verbatim>\<open>pegar_token_atualizado\<close> in a row, with the tokens they return.\<close>

fun pegar_n :: "lib \<Rightarrow> nat \<Rightarrow> world \<Rightarrow> gerenciador \<Rightarrow> json list \<times> world \<times> gerenciador" where
  "pegar_n L 0 w s = ([], w, s)"
| "pegar_n L (Suc n) w s =
     (let (t, w1, s1) = pegar_token_atualizado L w s;
          (ts, w2, s2) = pegar_n L n w1 s1
      in (t # ts, w2, s2))"

text \<open>The template \<^verbatim>\<open>body2\<close> of \<^verbatim>\<open>consulta_sql\<close>, line by line.\<close>

definition body2 :: string where
  \<open>body2 =
     [CHR 0x0A] @
     ''        {'' @ [CHR 0x0A] @
     ''            "CommandText": "{SQL_TEXT}",'' @ [CHR 0x0A] @
     ''            "ConnectionType": 0,'' @ [CHR 0x0A] @
     ''            "Limit": null'' @ [CHR 0x0A] @
     ''        }'' @ [CHR 0x0A] @
     ''        ''\<close>

definition sql_headers :: "string \<Rightarrow> (string \<times> string) list" where
  "sql_headers tok =
     [(''Content-Type'', ''application/json''),
      (''Accept'', ''application/json''),
      (''Authorization'', ''Bearer '' @ tok)]"

text \<open>The two parts of \<^verbatim>\<open>body2\<close> around the placeholder \<^verbatim>\<open>{SQL_TEXT}\<close>.\<close>

definition body2_antes :: string where
  \<open>body2_antes =
     [CHR 0x0A] @
     ''        {'' @ [CHR 0x0A] @
     ''            "CommandText": "''\<close>

definition body2_depois :: string where
  \<open>body2_depois =
     ''",'' @ [CHR 0x0A] @
     ''            "ConnectionType": 0,'' @ [CHR 0x0A] @
     ''            "Limit": null'' @ [CHR 0x0A] @
     ''        }'' @ [CHR 0x0A] @
     ''        ''\<close>

text \<open>
  \<^verbatim>\<open>consulta_sql\<close> has no \<^verbatim>\<open>try\<close>: an exception leaves the method. The result is the parsed
  body, or \<open>JNull\<close> for \<^verbatim>\<open>None\<close>.
\<close>

definition consulta_sql ::
  "lib \<Rightarrow> world \<Rightarrow> gerenciador \<Rightarrow> string \<Rightarrow> (exn + json) \<times> world \<times> gerenciador" where
  "consulta_sql L w s sql_text =
     (let (sess, w1, s1) = obter_session_autenticada L w s;
          (t, w2, s2) = pegar_token_atualizado L w1 s1
      in case subscript t ''access_token'' of
           Inl e \<Rightarrow> (Inl e, w2, s2)
         | Inr a \<Rightarrow>
             let headers = sql_headers (format_py L a);
                 (r, w3) = post (DataPost (api_sql_url s2)
                                   (str_replace body2 ''{SQL_TEXT}'' sql_text) headers) w2
             in (case r of
                   FalhaTransporte \<Rightarrow> (Inl RequestException, w3, s2)
                 | Resposta status j text body \<Rightarrow>
                     if status = 200 then
                       (case body of
                          None \<Rightarrow> (Inl JSONDecodeError, w3, s2)
                        | Some b \<Rightarrow> (Inr b, w3, s2))
                     else (Inr JNull, print (MErroConsultaSQL status) w3, s2)))"

text \<open>
  \<^verbatim>\<open>tempo_restante_token\<close>: \<^verbatim>\<open>total_seconds() > 0\<close> holds exactly of a positive timedelta.
\<close>

definition tempo_restante_token :: "world \<Rightarrow> gerenciador \<Rightarrow> timedelta option \<times> world" where
  "tempo_restante_token w s =
     (case validade_token s of
        None \<Rightarrow> (None, w)
      | Some v \<Rightarrow>
          let (agora, w1) = now w;
              tempo_restante = dt_sub v agora
          in (Some (if tempo_restante > 0 then tempo_restante else 0), w1))"

text \<open>
  The dict \<^verbatim>\<open>status_token\<close> returns. \<^verbatim>\<open>validade\<close> and \<^verbatim>\<open>tempo_restante\<close> are kept as the values
  that \<^verbatim>\<open>isoformat\<close> and \<^verbatim>\<open>str\<close> format; a zero timedelta is falsy, so it is reported as
  \<^verbatim>\<open>None\<close>.
\<close>

record status =
  token_valido :: bool
  validade :: "datetime option"
  tempo_restante :: "timedelta option"
  precisa_renovar :: bool

definition status_token :: "world \<Rightarrow> gerenciador \<Rightarrow> status \<times> world \<times> gerenciador" where
  "status_token w s =
     (let (tv, w1) = (if token_data s \<noteq> JNull
                      then (let (p, w') = token_precisa_renovar w s in (\<not> p, w'))
                      else (False, w));
          (tr, w2) = tempo_restante_token w1 s;
          (pr, w3) = token_precisa_renovar w2 s
      in (\<lparr>token_valido = tv,
           validade = validade_token s,
           tempo_restante = (case tr of None \<Rightarrow> None | Some d \<Rightarrow> if d \<noteq> 0 then Some d else None),
           precisa_renovar = pr\<rparr>, w3, s))"

section \<open>The HTTP front\<close>

text \<open>
  \<^verbatim>\<open>secrets.compare_digest\<close> on two \<^verbatim>\<open>str\<close>: equality when both are ASCII, \<^verbatim>\<open>TypeError\<close>
  otherwise. A string is the list of the bytes of its UTF-8 encoding.
\<close>

definition is_ascii :: "string \<Rightarrow> bool" where
  "is_ascii x = list_all (\<lambda>c. (of_char c :: nat) < 128) x"

definition compare_digest :: "string \<Rightarrow> string \<Rightarrow> exn + bool" where
  "compare_digest a b = (if is_ascii a \<and> is_ascii b then Inr (a = b) else Inl TypeError)"

text \<open>
  \<^verbatim>\<open>verificar_autenticacao\<close> is the same text in \<^verbatim>\<open>main.py\<close> and in \<^verbatim>\<open>api_fastapi.py\<close>. The
  configured \<^verbatim>\<open>VALID_USERNAME\<close> and \<^verbatim>\<open>VALID_PASSWORD\<close> come first, then the credentials of
  the request. It returns the user name to the handler or raises.
\<close>

definition credenciais_invalidas :: string where
  "credenciais_invalidas = ''Credenciais inv'' @ [CHR 0xC3, CHR 0xA1] @ ''lidas''"

definition verificar_autenticacao :: "string \<Rightarrow> string \<Rightarrow> string \<Rightarrow> string \<Rightarrow> exn + string" where
  "verificar_autenticacao valid_username valid_password username password =
     (case compare_digest username valid_username of
        Inl e \<Rightarrow> Inl e
      | Inr correct_username \<Rightarrow>
          (case compare_digest password valid_password of
             Inl e \<Rightarrow> Inl e
           | Inr correct_password \<Rightarrow>
               if \<not> (correct_username \<and> correct_password)
               then Inl (HTTPException 401 credenciais_invalidas
                           [(''WWW-Authenticate'', ''Basic'')])
               else Inr username))"

section \<open>Concrete inputs\<close>

text \<open>
  The instant 2025-01-01T00:00:00 in microseconds, a token as the ERP sets it in the
  \<^verbatim>\<open>oAuthToken\<close> cookie, an instance that holds it with a given expiry, and a world whose clock
  stands still, with no file and a network that is down.
\<close>

definition t0 :: datetime where
  "t0 = 63871286400000000"

definition token_ex :: json where
  "token_ex = JObj [(''access_token'', JStr ''abc''), (''.expires'', JStr ''2025-01-01T03:00:00Z'')]"

definition ger_novo :: gerenciador where
  "ger_novo = init ''https://erp.example/Login''
                ''https://erp.example:8343/ConstrutorAnaliseAPI/api/Analysis/GetSqlResult''
                ''tokens/erp.example_cookies.json'' 7 1234 1"

definition ger_ex :: "datetime option \<Rightarrow> gerenciador" where
  "ger_ex v = ger_novo\<lparr>token_data := token_ex, validade_token := v\<rparr>"

definition mundo_ex :: world where
  "mundo_ex = \<lparr>clock = (\<lambda>k. t0), ticks = 0, files = Map.empty,
               net = (\<lambda>k. FalhaTransporte), sent = [], out = []\<rparr>"

text \<open>
  The text of the token cookie, and two more tokens with their texts: one that expires five
  minutes after \<open>t0\<close>, one that expires two hours after \<^verbatim>\<open>datetime.min\<close>.
\<close>

definition cookie_ex :: string where
  \<open>cookie_ex = ''{"access_token": "abc", ".expires": "2025-01-01T03:00:00Z"}''\<close>

definition token_curto :: json where
  "token_curto = JObj [(''access_token'', JStr ''abc''), (''.expires'', JStr ''2025-01-01T00:05:00Z'')]"

definition cookie_curto :: string where
  \<open>cookie_curto = ''{"access_token": "abc", ".expires": "2025-01-01T00:05:00Z"}''\<close>

definition token_min :: json where
  "token_min = JObj [(''access_token'', JStr ''abc''), (''.expires'', JStr ''0001-01-01T02:00:00Z'')]"

definition cookie_min :: string where
  \<open>cookie_min = ''{"access_token": "abc", ".expires": "0001-01-01T02:00:00Z"}''\<close>

text \<open>The library functions on the texts above: what Python computes for them.\<close>

definition lib_ex :: lib where
  "lib_ex = \<lparr>json_loads = map_of [(cookie_ex, token_ex), (cookie_curto, token_curto),
                                    (cookie_min, token_min)],
             strptime = map_of [(''2025-01-01T03:00:00Z'', t0 + 10800000000),
                                (''2025-01-01T00:05:00Z'', t0 + 300000000),
                                (''0001-01-01T02:00:00Z'', 7200000000)],
             str_of = (\<lambda>v. [])\<rparr>"

text \<open>
  The session's jar after a login that the ERP accepts, and worlds whose network gives the
  same answer to every request.
\<close>

definition jar_ex :: "string \<Rightarrow> jar" where
  "jar_ex c = [(''erp.example'',
                [(''/'', [(''ASP.NET_SessionId'', Some ''sess1''), (''oAuthToken'', Some c)])])]"

definition mundo_rede :: "http_result \<Rightarrow> world" where
  "mundo_rede r = mundo_ex\<lparr>net := (\<lambda>k. r)\<rparr>"

definition mundo_ok :: world where
  "mundo_ok = mundo_rede (Resposta 200 (jar_ex cookie_ex) [] None)"

definition mundo_curto :: world where
  "mundo_curto = mundo_rede (Resposta 200 (jar_ex cookie_curto) [] None)"

definition mundo_min :: world where
  "mundo_min = mundo_rede (Resposta 200 (jar_ex cookie_min) [] None)"

definition jar_sem_token :: jar where
  "jar_sem_token = [(''erp.example'', [(''/'', [(''ASP.NET_SessionId'', Some ''sess1'')])])]"

definition mundo_sem_token :: world where
  "mundo_sem_token = mundo_rede (Resposta 200 jar_sem_token [] None)"

text \<open>
  A jar with a cookie that has no value and a cookie whose value is a double quote, a
  backslash and a double quote, beside the token.
\<close>

definition jar_q :: jar where
  "jar_q = [(''erp.example'',
             [(''/'', [(''flag'', None), (''q'', Some [CHR 0x22, CHR 0x5C, CHR 0x22]),
                       (''oAuthToken'', Some cookie_ex)])])]"

definition mundo_q :: world where
  "mundo_q = mundo_rede (Resposta 200 jar_q [] None)"

text \<open>
  An instance after an earlier login: its jar holds the cookie of the token that expires five
  minutes after \<open>t0\<close>.
\<close>

definition ger_antigo :: gerenciador where
  "ger_antigo = ger_novo\<lparr>session := jar_ex cookie_curto, token_data := token_curto,
                          validade_token := Some (t0 + 300000000)\<rparr>"

definition mundo_500 :: world where
  "mundo_500 = mundo_rede (Resposta 500 [] ''erro'' None)"

definition mundo_200 :: world where
  "mundo_200 = mundo_rede (Resposta 200 [] [] (Some (JObj [(''rows'', JArr [])])))"

definition ger_valido :: gerenciador where
  "ger_valido = ger_ex (Some (t0 + 10800000000))"

definition sql_ex :: string where
  "sql_ex = ''SELECT * FROM dual''"

text \<open>A login and the reload of what it wrote into a new instance, for two of the tokens.\<close>

definition login_ok :: "bool \<times> world \<times> gerenciador" where
  "login_ok = fazer_login lib_ex mundo_ok ger_novo"

definition reload_ok :: "bool \<times> world \<times> gerenciador" where
  "reload_ok = carregar_token_salvo lib_ex (fst (snd login_ok)) ger_novo"

definition login_min :: "bool \<times> world \<times> gerenciador" where
  "login_min = fazer_login lib_ex mundo_min ger_novo"

definition reload_min :: "bool \<times> world \<times> gerenciador" where
  "reload_min = carregar_token_salvo lib_ex (fst (snd login_min)) ger_novo"

definition login_q :: "bool \<times> world \<times> gerenciador" where
  "login_q = fazer_login lib_ex mundo_q ger_novo"

definition reload_q :: "bool \<times> world \<times> gerenciador" where
  "reload_q = carregar_token_salvo lib_ex (fst (snd login_q)) ger_novo"

section \<open>Auxiliary facts\<close>

lemmas model_defs =
  pegar_token_atualizado_def token_e_valido_def token_precisa_renovar_def
  carregar_token_salvo_def carregar_token_salvo_try_def fazer_login_def fazer_login_try_def
  obter_session_autenticada_def
  now_def post_def print_def cookies_dict_def jar_cookies_def jar_set_def set_cookie_def
  remove_cookie_by_name_def unescape_quoted_def dt_sub_def dt_add_def
  margem_seguranca_def minutes_def hours_def Let_def

lemmas example_defs =
  t0_def token_ex_def ger_novo_def ger_ex_def mundo_ex_def init_def cookie_ex_def token_curto_def
  cookie_curto_def token_min_def cookie_min_def lib_ex_def jar_ex_def mundo_rede_def
  mundo_curto_def mundo_sem_token_def mundo_min_def mundo_ok_def mundo_500_def mundo_200_def
  ger_valido_def sql_ex_def login_ok_def reload_ok_def login_min_def reload_min_def
  jar_sem_token_def jar_q_def mundo_q_def ger_antigo_def login_q_def reload_q_def

text \<open>The first check of \<^verbatim>\<open>pegar_token_atualizado\<close> decides when the token is valid.\<close>

lemma fast_path:
  assumes "validade_token s = Some v" and "token_data s \<noteq> JNull"
      and "int v - int (clock w (ticks w)) > 600000000"
  shows "pegar_token_atualizado L w s =
           (token_data s, print (MTokenAindaValido (Some v)) (w\<lparr>ticks := Suc (ticks w)\<rparr>), s)"
  using assms
  by (simp add: pegar_token_atualizado_def token_e_valido_def now_def dt_sub_def
        margem_seguranca_def minutes_def)

text \<open>What a login that returns \<^verbatim>\<open>True\<close> has seen and done.\<close>

lemma fazer_login_success:
  assumes "fazer_login L w s = (True, w1, s1)"
  shows "\<exists>j tx b c td x t.
           net w (length (sent w)) = Resposta 200 j tx b
         \<and> map_of (cookies_dict j) ''oAuthToken'' = Some (Some c)
         \<and> json_loads L c = Some td
         \<and> subscript td ''.expires'' = Inr x
         \<and> strptime_py L x = Inr t
         \<and> s1 = s\<lparr>session := j, token_data := td, validade_token := Some t\<rparr>
         \<and> files w1 = (files w)(arquivo_cookies s \<mapsto> Cookies (cookies_dict j))"
proof -
  obtain r where r: "net w (length (sent w)) = r" by simp
  show ?thesis
  proof (cases r)
    case FalhaTransporte
    with assms r show ?thesis
      by (simp add: fazer_login_def fazer_login_try_def now_def post_def print_def)
  next
    case (Resposta status j tx b)
    show ?thesis
    proof (cases "map_of (cookies_dict j) ''oAuthToken''")
      case None
      with assms r Resposta show ?thesis
        by (simp add: fazer_login_def fazer_login_try_def now_def post_def print_def Let_def
              split: if_splits)
    next
      case (Some v)
      show ?thesis
      proof (cases v)
        case None
        with assms r Resposta Some show ?thesis
          by (simp add: fazer_login_def fazer_login_try_def now_def post_def print_def Let_def
                split: if_splits)
      next
        case (Some c)
        with assms r Resposta \<open>map_of (cookies_dict j) ''oAuthToken'' = Some v\<close> show ?thesis
          by (auto simp: fazer_login_def fazer_login_try_def now_def post_def print_def Let_def
                split: option.splits sum.splits if_splits)
      qed
    qed
  qed
qed

text \<open>Dicts as association lists: a new key goes to the end, and keys stay distinct.\<close>

lemma update_fresh_key: "k \<notin> fst ` set al \<Longrightarrow> AList.update k v al = al @ [(k, v)]"
  by (induction al) auto

lemma delete_fresh_key: "k \<notin> fst ` set al \<Longrightarrow> AList.delete k al = al"
  by (induction al) auto

lemma distinct_update_fold:
  "distinct (map fst acc) \<Longrightarrow>
   distinct (map fst (fold (\<lambda>((d, p, n), v) acc. AList.update n v acc) xs acc))"
  by (induction xs arbitrary: acc) (auto simp: distinct_update)

lemma distinct_cookies_dict: "distinct (map fst (cookies_dict j))"
  by (simp add: cookies_dict_def distinct_update_fold)

text \<open>
  What the replay loop of \<^verbatim>\<open>carregar_token_salvo\<close> leaves of a dict: the pairs whose value is
  a string, each value as \<^verbatim>\<open>set_cookie\<close> stores it. First into a jar that already holds
  cookies of the empty domain and the path \<^verbatim>\<open>/\<close> under other names, then into an empty jar.
\<close>

lemma replay_acc:
  "distinct (map fst d) \<Longrightarrow> fst ` set ns \<inter> fst ` set d = {} \<Longrightarrow>
   fold (\<lambda>(n, v) j. jar_set n v j) d [('''', [(''/'', ns)])] =
     [('''', [(''/'', ns @ map (\<lambda>(n, v). (n, map_option unescape_quoted v))
                                (filter (\<lambda>(n, v). v \<noteq> None) d))])]"
proof (induction d arbitrary: ns)
  case Nil
  then show ?case by simp
next
  case (Cons a d)
  obtain n v where a: "a = (n, v)" by (cases a)
  from Cons.prems a have fresh: "n \<notin> fst ` set ns" by auto
  from Cons.prems a have d: "distinct (map fst d)" and nd: "n \<notin> fst ` set d" by auto
  show ?case
  proof (cases v)
    case None
    have step: "jar_set n None [('''', [(''/'', ns)])] = [('''', [(''/'', ns)])]"
      by (simp add: jar_set_def remove_cookie_by_name_def delete_fresh_key [OF fresh])
    have disj: "fst ` set ns \<inter> fst ` set d = {}" using Cons.prems(2) by auto
    show ?thesis using Cons.IH [OF d disj] by (simp add: a None step)
  next
    case (Some x)
    let ?ns = "ns @ [(n, Some (unescape_quoted x))]"
    have step: "jar_set n (Some x) [('''', [(''/'', ns)])] = [('''', [(''/'', ?ns)])]"
      by (simp add: jar_set_def set_cookie_def update_fresh_key [OF fresh])
    have disj: "fst ` set ?ns \<inter> fst ` set d = {}" using Cons.prems(2) nd a by auto
    show ?thesis using Cons.IH [OF d disj] by (simp add: a Some step)
  qed
qed

lemma replay_fresh:
  "distinct (map fst d) \<Longrightarrow>
   fold (\<lambda>(n, v) j. jar_set n v j) d [] =
     (if filter (\<lambda>(n, v). v \<noteq> None) d = [] then []
      else [('''', [(''/'', map (\<lambda>(n, v). (n, map_option unescape_quoted v))
                              (filter (\<lambda>(n, v). v \<noteq> None) d))])])"
proof (induction d)
  case Nil
  then show ?case by simp
next
  case (Cons a d)
  obtain n v where a: "a = (n, v)" by (cases a)
  from Cons.prems a have d: "distinct (map fst d)" and nd: "n \<notin> fst ` set d" by auto
  show ?case
  proof (cases v)
    case None
    have step: "jar_set n None [] = []"
      by (simp add: jar_set_def remove_cookie_by_name_def)
    show ?thesis using Cons.IH [OF d] by (simp add: a None step)
  next
    case (Some x)
    have step: "jar_set n (Some x) [] = [('''', [(''/'', [(n, Some (unescape_quoted x))])])]"
      by (simp add: jar_set_def set_cookie_def)
    have disj: "fst ` set [(n, Some (unescape_quoted x))] \<inter> fst ` set d = {}"
      using nd by simp
    show ?thesis using replay_acc [OF d disj] by (simp add: a Some step)
  qed
qed

lemma cookies_dict_single_acc:
  "distinct (map fst ns) \<Longrightarrow> fst ` set acc \<inter> fst ` set ns = {} \<Longrightarrow>
   fold (\<lambda>((d, p, n), v) acc. AList.update n v acc)
     (map (\<lambda>(n, v). (('''', ''/'', n), v)) ns) acc = acc @ ns"
proof (induction ns arbitrary: acc)
  case Nil
  then show ?case by simp
next
  case (Cons a ns)
  obtain n v where a: "a = (n, v)" by (cases a)
  from Cons.prems(2) a have fresh: "n \<notin> fst ` set acc" by auto
  from Cons.prems a have d: "distinct (map fst ns)" and nd: "n \<notin> fst ` set ns" by auto
  have disj: "fst ` set (acc @ [(n, v)]) \<inter> fst ` set ns = {}"
    using Cons.prems(2) nd a by auto
  show ?case
    using Cons.IH [OF d disj] by (simp add: a update_fresh_key [OF fresh])
qed

lemma cookies_dict_single:
  "distinct (map fst ns) \<Longrightarrow> cookies_dict [('''', [(''/'', ns)])] = ns"
  using cookies_dict_single_acc [of ns "[]"] by (simp add: cookies_dict_def jar_cookies_def)

lemma distinct_replayed:
  assumes "distinct (map fst d)"
  shows "distinct (map fst (map (\<lambda>(n, v). (n, map_option unescape_quoted v))
                              (filter (\<lambda>(n, v). v \<noteq> None) d)))"
proof -
  have eq: "map fst (map (\<lambda>(n, v). (n, map_option unescape_quoted v)) xs) = map fst xs"
    for xs :: "('a \<times> string option) list"
    by (induction xs) auto
  from assms have "distinct (map fst (filter (\<lambda>(n, v). v \<noteq> None) d))"
    by (rule distinct_map_filter)
  then show ?thesis by (simp only: eq)
qed

lemma replayed_unchanged:
  "(\<forall>n v. (n, v) \<in> set d \<longrightarrow> (\<exists>x. v = Some x \<and> unescape_quoted x = x)) \<Longrightarrow>
   map (\<lambda>(n, v). (n, map_option unescape_quoted v)) (filter (\<lambda>(n, v). v \<noteq> None) d) = d"
  by (induction d) auto

text \<open>The reload of a file whose token parses and whose expiry can be moved back by 3 hours.\<close>

lemma carregar_token_salvo_loaded:
  assumes fl: "files w (arquivo_cookies s) = Some (Cookies d)"
      and tok: "map_of d ''oAuthToken'' = Some (Some c)"
      and js: "json_loads L c = Some td"
      and sub: "subscript td ''.expires'' = Inr x"
      and tm: "strptime_py L x = Inr t"
      and range: "10800000000 \<le> t"
      and res: "carregar_token_salvo L w s = (b, w', s')"
  shows "s' = s\<lparr>token_data := td, validade_token := Some (t - 10800000000),
                 session := fold (\<lambda>(n, v) j. jar_set n v j) d (session s)\<rparr>"
  using assms
  by (auto simp: carregar_token_salvo_def carregar_token_salvo_try_def dt_add_def hours_def
        Let_def nat_diff_distrib' split: prod.splits if_splits sum.splits)

text \<open>The body that \<^verbatim>\<open>consulta_sql\<close> sends: the SQL text between the two parts of the template.\<close>

lemma body2_substituted:
  "str_replace body2 ''{SQL_TEXT}'' sql_text = body2_antes @ sql_text @ body2_depois"
  by (simp add: body2_def body2_antes_def body2_depois_def)

section \<open>The validity predicates\<close>

text \<open>
  C3. A token is present when both \<^verbatim>\<open>_validade_token\<close> and \<^verbatim>\<open>_token_data\<close> are set. At the
  instant \<open>clock w (ticks w)\<close> that the predicate reads, \<^verbatim>\<open>_token_e_valido\<close> holds exactly when
  a token is present and its expiry lies more than 10 minutes (600000000 microseconds) ahead;
  \<^verbatim>\<open>_token_precisa_renovar\<close> holds exactly when no token is present or the expiry lies at most
  10 minutes ahead; read at the same instant, each is the negation of the other.
\<close>

theorem validity_predicates:
  "fst (token_e_valido w s) =
     (\<exists>v. validade_token s = Some v \<and> token_data s \<noteq> JNull
          \<and> int v - int (clock w (ticks w)) > 600000000)
   \<and> fst (token_precisa_renovar w s) =
     (validade_token s = None \<or> token_data s = JNull
      \<or> (\<exists>v. validade_token s = Some v \<and> int v - int (clock w (ticks w)) \<le> 600000000))
   \<and> fst (token_e_valido w s) = (\<not> fst (token_precisa_renovar w s))"
  by (auto simp: token_e_valido_def token_precisa_renovar_def now_def dt_sub_def
        margem_seguranca_def minutes_def split: option.splits)

text \<open>
  At the boundary: with exactly 10 minutes left the token is not valid and needs renewal, with
  10 minutes and 1 second left it is valid and needs none.
\<close>

theorem validity_predicates_witness:
  "\<not> fst (token_e_valido mundo_ex (ger_ex (Some (t0 + 600000000))))
   \<and> fst (token_precisa_renovar mundo_ex (ger_ex (Some (t0 + 600000000))))
   \<and> fst (token_e_valido mundo_ex (ger_ex (Some (t0 + 601000000))))
   \<and> \<not> fst (token_precisa_renovar mundo_ex (ger_ex (Some (t0 + 601000000))))
   \<and> \<not> fst (token_e_valido mundo_ex ger_novo)
   \<and> fst (token_precisa_renovar mundo_ex ger_novo)"
  using validity_predicates [of mundo_ex "ger_ex (Some (t0 + 600000000))"]
        validity_predicates [of mundo_ex "ger_ex (Some (t0 + 601000000))"]
        validity_predicates [of mundo_ex ger_novo]
  by (simp add: mundo_ex_def ger_ex_def ger_novo_def init_def token_ex_def)

section \<open>The remaining time\<close>

text \<open>
  C10. \<^verbatim>\<open>tempo_restante_token\<close> returns \<^verbatim>\<open>None\<close> when no expiry is recorded, the positive
  difference between the expiry and the instant it reads while the expiry lies ahead, and
  the zero timedelta from the expiry on; it never returns a negative timedelta.
\<close>

theorem tempo_restante_token_clamped:
  "fst (tempo_restante_token w s) =
     (case validade_token s of
        None \<Rightarrow> None
      | Some v \<Rightarrow> Some (if clock w (ticks w) < v then int v - int (clock w (ticks w)) else 0))
   \<and> (\<forall>d. fst (tempo_restante_token w s) = Some d \<longrightarrow> 0 \<le> d)"
  by (auto simp: tempo_restante_token_def now_def dt_sub_def split: option.splits)

theorem tempo_restante_token_clamped_witness:
  "fst (tempo_restante_token mundo_ex (ger_ex (Some (t0 + 5)))) = Some 5
   \<and> fst (tempo_restante_token mundo_ex (ger_ex (Some (t0 - 5)))) = Some 0
   \<and> fst (tempo_restante_token mundo_ex (ger_ex (Some t0))) = Some 0
   \<and> fst (tempo_restante_token mundo_ex ger_novo) = None"
  using tempo_restante_token_clamped [of mundo_ex "ger_ex (Some (t0 + 5))"]
        tempo_restante_token_clamped [of mundo_ex "ger_ex (Some (t0 - 5))"]
        tempo_restante_token_clamped [of mundo_ex "ger_ex (Some t0)"]
        tempo_restante_token_clamped [of mundo_ex ger_novo]
  by (simp add: mundo_ex_def ger_ex_def ger_novo_def init_def t0_def)

section \<open>The status\<close>

text \<open>
  C8. \<^verbatim>\<open>status_token\<close> only reads: the instance is as before, no request is sent, no file is
  written and nothing is printed; of the world only the count of clock readings moves, by at
  most three. The dict reports the recorded expiry and, with a token present, the validity at
  the first reading, the remaining time at the second (\<^verbatim>\<open>None\<close> once it is zero) and the need
  for renewal at the third; with no token it reports not valid and in need of renewal.
\<close>

theorem status_token_read_only:
  "status_token w s = (st, w', s') \<Longrightarrow>
     s' = s \<and> sent w' = sent w \<and> files w' = files w \<and> out w' = out w
     \<and> clock w' = clock w \<and> net w' = net w
     \<and> ticks w \<le> ticks w' \<and> ticks w' \<le> ticks w + 3
     \<and> validade st = validade_token s
     \<and> (\<forall>v. validade_token s = Some v \<and> token_data s \<noteq> JNull \<longrightarrow>
           ticks w' = ticks w + 3
           \<and> token_valido st = (int v - int (clock w (ticks w)) > 600000000)
           \<and> tempo_restante st =
               (if clock w (ticks w + 1) < v then Some (int v - int (clock w (ticks w + 1))) else None)
           \<and> precisa_renovar st = (int v - int (clock w (ticks w + 2)) \<le> 600000000))
     \<and> (validade_token s = None \<or> token_data s = JNull \<longrightarrow>
           \<not> token_valido st \<and> precisa_renovar st)"
  by (auto simp: status_token_def token_precisa_renovar_def tempo_restante_token_def now_def
        dt_sub_def margem_seguranca_def minutes_def Let_def
        split: option.splits if_splits prod.splits)

text \<open>The status of an instance whose token expires three hours after the clock reading.\<close>

theorem status_token_read_only_witness:
  "fst (status_token mundo_ex ger_valido) =
     \<lparr>token_valido = True, validade = Some (t0 + 10800000000),
      tempo_restante = Some 10800000000, precisa_renovar = False\<rparr>
   \<and> snd (snd (status_token mundo_ex ger_valido)) = ger_valido
   \<and> sent (fst (snd (status_token mundo_ex ger_valido))) = []
   \<and> ticks (fst (snd (status_token mundo_ex ger_valido))) = 3"
proof -
  let ?r = "status_token mundo_ex ger_valido"
  have h: "?r = (fst ?r, fst (snd ?r), snd (snd ?r))" by simp
  have v: "validade_token ger_valido = Some (t0 + 10800000000) \<and> token_data ger_valido \<noteq> JNull"
    by (simp add: ger_valido_def ger_ex_def token_ex_def)
  from status_token_read_only [OF h] v show ?thesis
    by (cases "fst ?r") (simp add: ger_valido_def ger_ex_def mundo_ex_def)
qed

section \<open>The fast path\<close>

text \<open>
  C6. When a token is present and valid at each of the next \<open>n\<close> clock readings, \<open>n\<close> calls of
  \<^verbatim>\<open>pegar_token_atualizado\<close> in a row each return the token in memory, leave the instance as
  it is, send no request (so no login) and write no file; each call reads the clock once.
\<close>

theorem fast_path_idempotent:
  assumes "validade_token s = Some v" and "token_data s \<noteq> JNull"
      and "\<forall>k. ticks w \<le> k \<and> k < ticks w + n \<longrightarrow> int v - int (clock w k) > 600000000"
      and "pegar_n L n w s = (ts, w', s')"
  shows "ts = replicate n (token_data s) \<and> s' = s \<and> sent w' = sent w \<and> files w' = files w
         \<and> ticks w' = ticks w + n"
  using assms(3,4)
proof (induction n arbitrary: w ts w' s')
  case 0
  then show ?case by simp
next
  case (Suc n)
  let ?w1 = "print (MTokenAindaValido (Some v)) (w\<lparr>ticks := Suc (ticks w)\<rparr>)"
  from Suc.prems(1) have now: "int v - int (clock w (ticks w)) > 600000000" by simp
  have step: "pegar_token_atualizado L w s = (token_data s, ?w1, s)"
    by (rule fast_path [OF assms(1,2) now])
  obtain ts1 w2 s2 where rest: "pegar_n L n ?w1 s = (ts1, w2, s2)"
    by (cases "pegar_n L n ?w1 s") auto
  have later: "\<forall>k. ticks ?w1 \<le> k \<and> k < ticks ?w1 + n \<longrightarrow> int v - int (clock ?w1 k) > 600000000"
    using Suc.prems(1) by (simp add: print_def)
  from Suc.IH [OF later rest]
  have ih: "ts1 = replicate n (token_data s)" "s2 = s" "sent w2 = sent ?w1" "files w2 = files ?w1"
    "ticks w2 = ticks ?w1 + n" by simp_all
  from Suc.prems(2) step rest have "ts = token_data s # ts1" "w' = w2" "s' = s2" by simp_all
  with ih show ?case by (simp add: print_def)
qed

text \<open>Three calls on an instance whose token expires three hours after the clock reading.\<close>

theorem fast_path_idempotent_witness:
  "fst (pegar_n lib_ex 3 mundo_ex ger_valido) = [token_ex, token_ex, token_ex]
   \<and> snd (snd (pegar_n lib_ex 3 mundo_ex ger_valido)) = ger_valido
   \<and> sent (fst (snd (pegar_n lib_ex 3 mundo_ex ger_valido))) = []
   \<and> ticks (fst (snd (pegar_n lib_ex 3 mundo_ex ger_valido))) = 3"
proof -
  let ?r = "pegar_n lib_ex 3 mundo_ex ger_valido"
  have h1: "validade_token ger_valido = Some (t0 + 10800000000)"
    by (simp add: ger_valido_def ger_ex_def)
  have h2: "token_data ger_valido \<noteq> JNull"
    by (simp add: ger_valido_def ger_ex_def token_ex_def)
  have h3: "\<forall>k. ticks mundo_ex \<le> k \<and> k < ticks mundo_ex + 3 \<longrightarrow>
              int (t0 + 10800000000) - int (clock mundo_ex k) > 600000000"
    by (simp add: mundo_ex_def)
  have h4: "?r = (fst ?r, fst (snd ?r), snd (snd ?r))" by simp
  from fast_path_idempotent [OF h1 h2 h3 h4] show ?thesis
    by (simp add: ger_valido_def ger_ex_def mundo_ex_def numeral_3_eq_3)
qed

section \<open>The token after a login\<close>

text \<open>
  C1. The claim is that a token returned by \<^verbatim>\<open>pegar_token_atualizado\<close> is valid when it is
  returned. The method returns the token that a login has just stored without checking it:
  on a new instance with no cookie file, when the ERP answers the login with a token that
  expires 5 minutes after the clock reading \<open>t0\<close>, the call returns that token, and
  \<^verbatim>\<open>_token_e_valido\<close> is false of the instance and the world it leaves.
\<close>

theorem pegar_token_atualizado_returns_invalid:
  "fst (pegar_token_atualizado lib_ex mundo_curto ger_novo) = token_curto
   \<and> token_curto \<noteq> JNull
   \<and> validade_token (snd (snd (pegar_token_atualizado lib_ex mundo_curto ger_novo)))
       = Some (t0 + 300000000)
   \<and> clock mundo_curto 0 = t0
   \<and> \<not> fst (token_e_valido (fst (snd (pegar_token_atualizado lib_ex mundo_curto ger_novo)))
                            (snd (snd (pegar_token_atualizado lib_ex mundo_curto ger_novo))))"
  by (simp add: model_defs example_defs)

section \<open>A login that fails\<close>




section \<open>The round trip through the cookie file\<close>

text \<open>
  C5. After a login that returns \<^verbatim>\<open>True\<close> and records an expiry at least 3 hours
  (10800000000 microseconds) after \<^verbatim>\<open>datetime.min\<close>, the cookie file holds the dict of the
  session's cookies; \<^verbatim>\<open>carregar_token_salvo\<close> on a new instance with the same file name, in any
  world where that file is as the login left it, ends with the same \<^verbatim>\<open>_token_data\<close> and with
  the expiry of the login moved back by exactly 3 hours. Its jar holds, under the empty domain
  and the path \<^verbatim>\<open>/\<close> and in the order of the dict, one cookie for each pair of the dict whose
  value is a string, with that value as \<^verbatim>\<open>set_cookie\<close> stores it (a value in double quotes
  loses every backslash followed by a double quote); a pair whose value is \<^verbatim>\<open>None\<close> sets no
  cookie. So when every value of the dict is a string that \<^verbatim>\<open>set_cookie\<close> stores as it is,
  the dict of the new jar is the dict that was written.
\<close>

theorem snapshot_round_trip:
  assumes login: "fazer_login L w s = (True, w1, s1)"
      and exp: "validade_token s1 = Some e"
      and range: "10800000000 \<le> e"
      and same_file: "files w2 (arquivo_cookies s) = files w1 (arquivo_cookies s)"
      and reload: "carregar_token_salvo L w2 (init u a (arquivo_cookies s) n p k) = (b, w3, s3)"
  shows "files w1 (arquivo_cookies s) = Some (Cookies (cookies_dict (session s1)))
       \<and> token_data s3 = token_data s1
       \<and> validade_token s3 = Some (e - 10800000000)
       \<and> session s3 =
           [('''', [(''/'', map (\<lambda>(n, v). (n, map_option unescape_quoted v))
                             (filter (\<lambda>(n, v). v \<noteq> None) (cookies_dict (session s1))))])]
       \<and> cookies_dict (session s3) =
           map (\<lambda>(n, v). (n, map_option unescape_quoted v))
             (filter (\<lambda>(n, v). v \<noteq> None) (cookies_dict (session s1)))
       \<and> ((\<forall>n v. (n, v) \<in> set (cookies_dict (session s1)) \<longrightarrow>
                   (\<exists>x. v = Some x \<and> unescape_quoted x = x)) \<longrightarrow>
            cookies_dict (session s3) = cookies_dict (session s1))"
proof -
  from fazer_login_success [OF login] obtain j tx bd c td x t where
    resp: "net w (length (sent w)) = Resposta 200 j tx bd"
    and r: "map_of (cookies_dict j) ''oAuthToken'' = Some (Some c)" "json_loads L c = Some td"
       "subscript td ''.expires'' = Inr x" "strptime_py L x = Inr t"
    and s1: "s1 = s\<lparr>session := j, token_data := td, validade_token := Some t\<rparr>"
    and f1: "files w1 = (files w)(arquivo_cookies s \<mapsto> Cookies (cookies_dict j))"
    by blast
  from s1 exp have te: "t = e" by simp
  let ?g = "init u a (arquivo_cookies s) n p k"
  let ?d = "cookies_dict j"
  let ?r = "map (\<lambda>(n, v). (n, map_option unescape_quoted v)) (filter (\<lambda>(n, v). v \<noteq> None) ?d)"
  have arq: "arquivo_cookies ?g = arquivo_cookies s" and empty: "session ?g = []"
    by (simp_all add: init_def)
  have file2: "files w2 (arquivo_cookies ?g) = Some (Cookies ?d)"
    using same_file f1 arq by simp
  from range te have range': "10800000000 \<le> t" by simp
  have s3: "s3 = ?g\<lparr>token_data := td, validade_token := Some (t - 10800000000),
                     session := fold (\<lambda>(n, v) j. jar_set n v j) ?d (session ?g)\<rparr>"
    by (rule carregar_token_salvo_loaded [OF file2 r range' reload])
  from r(1) have "(''oAuthToken'', Some c) \<in> set ?d" by (rule map_of_SomeD)
  then have "(''oAuthToken'', Some c) \<in> set (filter (\<lambda>(n, v). v \<noteq> None) ?d)" by simp
  then have ne: "filter (\<lambda>(n, v). v \<noteq> None) ?d \<noteq> []"
    by (auto simp: filter_empty_conv)
  have sess: "session s3 = [('''', [(''/'', ?r)])]"
    using s3 empty ne by (simp add: replay_fresh [OF distinct_cookies_dict])
  have dict: "cookies_dict (session s3) = ?r"
    unfolding sess by (rule cookies_dict_single [OF distinct_replayed [OF distinct_cookies_dict]])
  have same: "(\<forall>n v. (n, v) \<in> set ?d \<longrightarrow> (\<exists>x. v = Some x \<and> unescape_quoted x = x)) \<longrightarrow>
              cookies_dict (session s3) = ?d"
  proof
    assume h: "\<forall>n v. (n, v) \<in> set ?d \<longrightarrow> (\<exists>x. v = Some x \<and> unescape_quoted x = x)"
    show "cookies_dict (session s3) = ?d"
      unfolding dict by (rule replayed_unchanged [OF h])
  qed
  from s1 have j: "session s1 = j" "token_data s1 = td" by simp_all
  from s3 have td3: "token_data s3 = td" "validade_token s3 = Some (t - 10800000000)" by simp_all
  from f1 have f: "files w1 (arquivo_cookies s) = Some (Cookies ?d)" by simp
  show ?thesis
    unfolding j
  proof (intro conjI)
    show "files w1 (arquivo_cookies s) = Some (Cookies ?d)" by (rule f)
    show "token_data s3 = td" by (rule td3(1))
    show "validade_token s3 = Some (e - 10800000000)" using td3(2) te by simp
    show "session s3 = [('''', [(''/'', ?r)])]" by (rule sess)
    show "cookies_dict (session s3) = ?r" by (rule dict)
    show "(\<forall>n v. (n, v) \<in> set ?d \<longrightarrow> (\<exists>x. v = Some x \<and> unescape_quoted x = x)) \<longrightarrow>
          cookies_dict (session s3) = ?d" by (rule same)
  qed
qed

text \<open>
  A login that stores a token expiring three hours after \<open>t0\<close>, then the reload: the expiry
  is \<open>t0\<close>, and the two cookies are in the new jar with their values.
\<close>

theorem snapshot_round_trip_witness:
  "fst login_ok = True
   \<and> validade_token (snd (snd login_ok)) = Some (t0 + 10800000000)
   \<and> files (fst (snd login_ok)) (arquivo_cookies ger_novo)
       = Some (Cookies [(''ASP.NET_SessionId'', Some ''sess1''), (''oAuthToken'', Some cookie_ex)])
   \<and> token_data (snd (snd reload_ok)) = token_ex
   \<and> validade_token (snd (snd reload_ok)) = Some t0
   \<and> session (snd (snd reload_ok))
       = [('''', [(''/'', [(''ASP.NET_SessionId'', Some ''sess1''), (''oAuthToken'', Some cookie_ex)])])]
   \<and> cookies_dict (session (snd (snd reload_ok)))
       = [(''ASP.NET_SessionId'', Some ''sess1''), (''oAuthToken'', Some cookie_ex)]"
proof -
  have ok: "fst login_ok = True"
    by (simp add: model_defs example_defs)
  have login: "fazer_login lib_ex mundo_ok ger_novo = (True, fst (snd login_ok), snd (snd login_ok))"
    using ok by (simp add: login_ok_def prod_eq_iff)
  have exp: "validade_token (snd (snd login_ok)) = Some (t0 + 10800000000)"
    by (simp add: model_defs example_defs)
  have range: "10800000000 \<le> t0 + 10800000000" by simp
  have sess: "cookies_dict (session (snd (snd login_ok)))
                = [(''ASP.NET_SessionId'', Some ''sess1''), (''oAuthToken'', Some cookie_ex)]"
    by (simp add: model_defs example_defs)
  have tok: "token_data (snd (snd login_ok)) = token_ex"
    by (simp add: model_defs example_defs)
  have same: "unescape_quoted ''sess1'' = ''sess1''" "unescape_quoted cookie_ex = cookie_ex"
    by (simp_all add: unescape_quoted_def cookie_ex_def)
  have novo: "ger_novo = init ''https://erp.example/Login''
                ''https://erp.example:8343/ConstrutorAnaliseAPI/api/Analysis/GetSqlResult''
                (arquivo_cookies ger_novo) 7 1234 1"
    by (simp add: ger_novo_def init_def)
  have reload: "carregar_token_salvo lib_ex (fst (snd login_ok))
                  (init ''https://erp.example/Login''
                     ''https://erp.example:8343/ConstrutorAnaliseAPI/api/Analysis/GetSqlResult''
                     (arquivo_cookies ger_novo) 7 1234 1)
                = (fst reload_ok, fst (snd reload_ok), snd (snd reload_ok))"
    using novo by (simp add: reload_ok_def)
  from snapshot_round_trip [OF login exp range refl reload] ok exp sess tok same
  show ?thesis by (simp add: cookies_dict_def jar_cookies_def)
qed

text \<open>
  Two logins that return \<^verbatim>\<open>True\<close> and write the file, each followed by the reload into a new
  instance. The first stores a token expiring at 0001-01-01T02:00:00: in the reload, moving
  that expiry back by 3 hours raises \<^verbatim>\<open>OverflowError\<close>, so the reload returns \<^verbatim>\<open>False\<close>, the
  expiry stays as parsed and no cookie reaches the new jar. The second leaves in the jar a
  cookie without a value and a cookie whose value is a double quote, a backslash and a double
  quote: the reload sets no cookie for the first and stores a single double quote for the
  second, so the dict of the new jar is not the dict that was written.
\<close>

theorem snapshot_round_trip_counterexample:
  "fst login_min = True
   \<and> validade_token (snd (snd login_min)) = Some 7200000000
   \<and> files (fst (snd login_min)) (arquivo_cookies ger_novo)
       = Some (Cookies [(''ASP.NET_SessionId'', Some ''sess1''), (''oAuthToken'', Some cookie_min)])
   \<and> fst reload_min = False
   \<and> validade_token (snd (snd reload_min)) = Some 7200000000
   \<and> session (snd (snd reload_min)) = []
   \<and> fst login_q = True
   \<and> validade_token (snd (snd login_q)) = Some (t0 + 10800000000)
   \<and> files (fst (snd login_q)) (arquivo_cookies ger_novo)
       = Some (Cookies [(''flag'', None), (''q'', Some [CHR 0x22, CHR 0x5C, CHR 0x22]),
                        (''oAuthToken'', Some cookie_ex)])
   \<and> validade_token (snd (snd reload_q)) = Some t0
   \<and> cookies_dict (session (snd (snd reload_q)))
       = [(''q'', Some [CHR 0x22]), (''oAuthToken'', Some cookie_ex)]"
  by (simp add: model_defs example_defs)

section \<open>The SQL query\<close>

text \<open>
  C7. When the second \<^verbatim>\<open>pegar_token_atualizado\<close> of \<^verbatim>\<open>consulta_sql\<close> returns a token with an
  \<^verbatim>\<open>access_token\<close> and the POST gets a response, then for every SQL text exactly one request
  is sent after the token is obtained: a POST to the SQL URL whose body is the template with
  the SQL text put in place of \<^verbatim>\<open>{SQL_TEXT}\<close> as it is, with the header
  \<^verbatim>\<open>Authorization: Bearer <access_token>\<close>. On status 200 the method returns the parsed body
  and prints nothing; on any other status it returns \<^verbatim>\<open>None\<close> and prints the status code.
\<close>

theorem consulta_sql_contract:
  assumes "obter_session_autenticada L w s = (sess, w1, s1)"
      and "pegar_token_atualizado L w1 s1 = (t, w2, s2)"
      and "subscript t ''access_token'' = Inr a"
      and "net w2 (length (sent w2)) = Resposta status j text body"
      and "consulta_sql L w s sql_text = (res, w3, s3)"
  shows "s3 = s2
       \<and> sent w3 = sent w2 @
           [DataPost (api_sql_url s2) (body2_antes @ sql_text @ body2_depois)
              [(''Content-Type'', ''application/json''), (''Accept'', ''application/json''),
               (''Authorization'', ''Bearer '' @ format_py L a)]]
       \<and> (\<forall>b. status = 200 \<and> body = Some b \<longrightarrow> res = Inr b \<and> out w3 = out w2)
       \<and> (status \<noteq> 200 \<longrightarrow> res = Inr JNull \<and> out w3 = out w2 @ [MErroConsultaSQL status])"
  using assms
  by (auto simp: consulta_sql_def post_def print_def sql_headers_def body2_substituted Let_def
        split: option.splits if_splits)

text \<open>
  A query with a valid token in memory, against an ERP that answers 500 and against one that
  answers 200 with a JSON body.
\<close>

theorem consulta_sql_contract_witness:
  "fst (consulta_sql lib_ex mundo_500 ger_valido sql_ex) = Inr JNull
   \<and> sent (fst (snd (consulta_sql lib_ex mundo_500 ger_valido sql_ex)))
       = [DataPost (api_sql_url ger_valido) (body2_antes @ sql_ex @ body2_depois)
            [(''Content-Type'', ''application/json''), (''Accept'', ''application/json''),
             (''Authorization'', ''Bearer abc'')]]
   \<and> last (out (fst (snd (consulta_sql lib_ex mundo_500 ger_valido sql_ex)))) = MErroConsultaSQL 500
   \<and> fst (consulta_sql lib_ex mundo_200 ger_valido sql_ex) = Inr (JObj [(''rows'', JArr [])])
   \<and> length (sent (fst (snd (consulta_sql lib_ex mundo_200 ger_valido sql_ex)))) = 1"
proof -
  have fast: "\<And>w. clock w = (\<lambda>k. t0) \<Longrightarrow>
      pegar_token_atualizado lib_ex w ger_valido =
        (token_ex, print (MTokenAindaValido (Some (t0 + 10800000000))) (w\<lparr>ticks := Suc (ticks w)\<rparr>),
         ger_valido)"
    by (simp add: model_defs ger_valido_def ger_ex_def token_ex_def)
  have sub: "subscript token_ex ''access_token'' = Inr (JStr ''abc'')"
    by (simp add: token_ex_def)
  { fix r :: http_result
    let ?w = "mundo_rede r"
    let ?w1 = "print (MTokenAindaValido (Some (t0 + 10800000000))) (?w\<lparr>ticks := Suc (ticks ?w)\<rparr>)"
    let ?w2 = "print (MTokenAindaValido (Some (t0 + 10800000000))) (?w1\<lparr>ticks := Suc (ticks ?w1)\<rparr>)"
    let ?q = "consulta_sql lib_ex ?w ger_valido sql_ex"
    have c: "clock ?w = (\<lambda>k. t0)" "clock ?w1 = (\<lambda>k. t0)"
      by (simp_all add: mundo_rede_def mundo_ex_def print_def)
    have h1: "obter_session_autenticada lib_ex ?w ger_valido = (Some (session ger_valido), ?w1, ger_valido)"
      by (simp add: obter_session_autenticada_def fast [OF c(1)] token_ex_def)
    have h2: "pegar_token_atualizado lib_ex ?w1 ger_valido = (token_ex, ?w2, ger_valido)"
      by (rule fast [OF c(2)])
    have h5: "?q = (fst ?q, fst (snd ?q), snd (snd ?q))" by simp
    have n: "net ?w2 (length (sent ?w2)) = r" "sent ?w2 = []"
      by (simp_all add: mundo_rede_def mundo_ex_def print_def)
    note h1 h2 h5 n
  } note facts = this
  from consulta_sql_contract [OF facts(1) facts(2) sub _ facts(3), of "Resposta 500 [] ''erro'' None"
        500 "[]" "''erro''" None]
       facts(4,5) [of "Resposta 500 [] ''erro'' None"]
  have a: "fst (consulta_sql lib_ex mundo_500 ger_valido sql_ex) = Inr JNull
     \<and> sent (fst (snd (consulta_sql lib_ex mundo_500 ger_valido sql_ex)))
       = [DataPost (api_sql_url ger_valido) (body2_antes @ sql_ex @ body2_depois)
            [(''Content-Type'', ''application/json''), (''Accept'', ''application/json''),
             (''Authorization'', ''Bearer abc'')]]
     \<and> last (out (fst (snd (consulta_sql lib_ex mundo_500 ger_valido sql_ex)))) = MErroConsultaSQL 500"
    by (simp add: mundo_500_def)
  from consulta_sql_contract [OF facts(1) facts(2) sub _ facts(3),
        of "Resposta 200 [] [] (Some (JObj [(''rows'', JArr [])]))"
        200 "[]" "[]" "Some (JObj [(''rows'', JArr [])])"]
       facts(4,5) [of "Resposta 200 [] [] (Some (JObj [(''rows'', JArr [])]))"]
  have b: "fst (consulta_sql lib_ex mundo_200 ger_valido sql_ex) = Inr (JObj [(''rows'', JArr [])])
     \<and> length (sent (fst (snd (consulta_sql lib_ex mundo_200 ger_valido sql_ex)))) = 1"
    by (simp add: mundo_200_def)
  from a b show ?thesis by simp
qed

section \<open>Basic authentication\<close>

text \<open>
  With ASCII strings on both sides, \<^verbatim>\<open>verificar_autenticacao\<close> returns the user name to the
  handler if both match, and otherwise raises \<^verbatim>\<open>HTTPException\<close> with status 401 and the
  header \<^verbatim>\<open>WWW-Authenticate: Basic\<close>.
\<close>

lemma verificar_autenticacao_ascii:
  assumes "is_ascii valid_username" and "is_ascii valid_password"
      and "is_ascii username" and "is_ascii password"
  shows "verificar_autenticacao valid_username valid_password username password =
           (if username = valid_username \<and> password = valid_password
            then Inr username
            else Inl (HTTPException 401 credenciais_invalidas [(''WWW-Authenticate'', ''Basic'')]))"
  using assms by (simp add: verificar_autenticacao_def compare_digest_def)

text \<open>
  C9. The claim is that a request whose user name or password differs from the configured
  one is answered 401 with the header \<^verbatim>\<open>WWW-Authenticate: Basic\<close>. \<^verbatim>\<open>verificar_autenticacao\<close>
  hands both strings to \<^verbatim>\<open>secrets.compare_digest\<close> as \<^verbatim>\<open>str\<close>, which raises \<^verbatim>\<open>TypeError\<close> when
  one of them has a character outside ASCII. With a configured password that has such a
  letter (here an e with an acute accent, two bytes in UTF-8) and a request with the right
  user name and another, ASCII, password, the function raises \<^verbatim>\<open>TypeError\<close> and not the
  \<^verbatim>\<open>HTTPException\<close> with status 401.
\<close>

theorem verificar_autenticacao_non_ascii_config:
  "is_ascii ''admin'' \<and> is_ascii ''wrong''
   \<and> ''wrong'' \<noteq> ''s'' @ [CHR 0xC3, CHR 0xA9] @ ''nha''
   \<and> verificar_autenticacao ''admin'' (''s'' @ [CHR 0xC3, CHR 0xA9] @ ''nha'') ''admin'' ''wrong''
       = Inl TypeError"
  by (simp add: verificar_autenticacao_def compare_digest_def is_ascii_def)

end
